theory Spec2Isabelle
  imports Complex_Main "HOL-Library.Multiset" "HOL-Library.Sublist" "HOL-Library.Char_ord"
    "HOL-Library.List_Lexorder"
begin

section \<open>Validation engine (services/validation\_engine.py)\<close>

text \<open>
  The enums of models/schemas.py. \<open>ComplianceStatus.WARNING\<close> and \<open>CheckStatus.WARNING\<close>
  are two different Python values with the same name; the compliance one is written
  \<open>COMPLIANCE_WARNING\<close> here.
\<close>

datatype CheckType =
    DEFORESTATION_PRODES
  | DEFORESTATION_MAPBIOMAS
  | TERRA_INDIGENA
  | QUILOMBOLA
  | UNIDADE_CONSERVACAO
  | EMBARGO_IBAMA
  | APP_WATER

datatype CheckStatus = PASS | FAIL | WARNING | SKIP

datatype ComplianceStatus = PENDING | APPROVED | REJECTED | COMPLIANCE_WARNING

text \<open>
  \<open>GeoCheckResult\<close>: the fields the engine reads or writes when it aggregates. The
  overlap figures and geometries of a result are carried along by the engine without being
  inspected and are left out. \<open>details\<close> is the string-keyed dictionary of the source, as
  an association list.
\<close>

record GeoCheckResult =
  check_type :: CheckType
  status :: CheckStatus
  score :: int
  message :: string
  details :: "(string \<times> string) list"

text \<open>
  \<open>GeoValidationResult\<close>: status, score and the list of checks. Identifier, timestamps
  and the reference-version snapshot do not depend on the checks and are left out.
\<close>

record GeoValidationResult =
  result_status :: ComplianceStatus
  risk_score :: int
  checks :: "GeoCheckResult list"

datatype engine_error = ValidationError string

text \<open>The dictionary \<open>CHECK_WEIGHTS\<close>: \<open>APP_WATER\<close> has no entry.\<close>

fun CHECK_WEIGHTS :: "CheckType \<Rightarrow> int option" where
  "CHECK_WEIGHTS DEFORESTATION_PRODES = Some 35"
| "CHECK_WEIGHTS DEFORESTATION_MAPBIOMAS = Some 25"
| "CHECK_WEIGHTS TERRA_INDIGENA = Some 15"
| "CHECK_WEIGHTS EMBARGO_IBAMA = Some 15"
| "CHECK_WEIGHTS QUILOMBOLA = Some 5"
| "CHECK_WEIGHTS UNIDADE_CONSERVACAO = Some 5"
| "CHECK_WEIGHTS APP_WATER = None"

text \<open>\<open>CHECK_WEIGHTS.get(check.check_type, 0)\<close>.\<close>

definition weight_of :: "GeoCheckResult \<Rightarrow> int" where
  "weight_of c = (case CHECK_WEIGHTS (check_type c) of Some w \<Rightarrow> w | None \<Rightarrow> 0)"

text \<open>
  Python's \<open>int(a / b)\<close> on two integers: the quotient, truncated towards zero. (The
  source divides in floating point; for the magnitudes a list of checks produces the
  truncated float quotient is the truncated exact quotient.)
\<close>

definition int_of_quotient :: "int \<Rightarrow> int \<Rightarrow> int" where
  "int_of_quotient a b = sgn a * sgn b * (\<bar>a\<bar> div \<bar>b\<bar>)"

text \<open>
  The accumulating loop of \<open>_calculate_risk_score\<close>: the pair is
  \<open>(total_weight, weighted_score)\<close>. Every check of the list is visited; the loop has no
  test on the status.
\<close>

fun risk_score_loop :: "GeoCheckResult list \<Rightarrow> int \<times> int \<Rightarrow> int \<times> int" where
  "risk_score_loop [] acc = acc"
| "risk_score_loop (c # cs) (total_weight, weighted_score) =
     risk_score_loop cs (total_weight + weight_of c, weighted_score + score c * weight_of c)"

definition calculate_risk_score :: "GeoCheckResult list \<Rightarrow> int" where
  "calculate_risk_score cs =
     (case risk_score_loop cs (0, 0) of (total_weight, weighted_score) \<Rightarrow>
        if total_weight = 0 then 50 else int_of_quotient weighted_score total_weight)"

text \<open>
  The list \<open>critical_blockers\<close> and the loop over the checks that sets
  \<open>has_critical_blocker\<close> and breaks at the first hit. The source writes this loop twice,
  with the same text, in \<open>validate_plot\<close> and in \<open>_determine_status\<close>.
\<close>

definition critical_blockers :: "CheckType list" where
  "critical_blockers = [TERRA_INDIGENA, QUILOMBOLA, EMBARGO_IBAMA, DEFORESTATION_PRODES]"

fun has_critical_blocker :: "GeoCheckResult list \<Rightarrow> bool" where
  "has_critical_blocker [] = False"
| "has_critical_blocker (c # cs) =
     (if check_type c \<in> set critical_blockers \<and> status c = FAIL then True
      else if check_type c = UNIDADE_CONSERVACAO \<and> score c = 0 then True
      else has_critical_blocker cs)"

definition determine_status :: "GeoCheckResult list \<Rightarrow> ComplianceStatus" where
  "determine_status cs =
     (if has_critical_blocker cs then REJECTED
      else
        let s = calculate_risk_score cs in
        if s \<ge> 75 then
          (if list_ex (\<lambda>c. status c = WARNING) cs then COMPLIANCE_WARNING else APPROVED)
        else if s \<ge> 60 then COMPLIANCE_WARNING
        else REJECTED)"

text \<open>
  \<open>_error_check_result\<close>. Strings are byte lists: the accented letters of the message
  are written as their UTF-8 bytes.
\<close>

definition error_check_result :: "CheckType \<Rightarrow> string \<Rightarrow> GeoCheckResult" where
  "error_check_result ct err =
     \<lparr> check_type = ct, status = SKIP, score = 50,
       message = ''N'' @ [CHR 0xC3, CHR 0xA3] @ ''o foi poss'' @ [CHR 0xC3, CHR 0xAD]
         @ ''vel executar verifica'' @ [CHR 0xC3, CHR 0xA7, CHR 0xC3, CHR 0xA3] @ ''o: '' @ err,
       details = [(''error'', err)] \<rparr>"

text \<open>
  \<open>_execute_check_safely\<close>: the check procedure runs inside a savepoint. A procedure
  is a function of the geometry and the area that either returns its result or raises; the
  raised exception is \<open>Inl\<close> of its text (\<open>str(e)\<close>). The \<open>except Exception\<close> branch
  turns it into the result of \<open>_error_check_result\<close>.
\<close>

definition execute_check_safely ::
  "CheckType \<Rightarrow> ('g \<Rightarrow> 'a \<Rightarrow> string + GeoCheckResult) \<Rightarrow> 'g \<Rightarrow> 'a \<Rightarrow> GeoCheckResult" where
  "execute_check_safely ct check_func geom_wkt area_ha =
     (case check_func geom_wkt area_ha of
        Inr r \<Rightarrow> r
      | Inl e \<Rightarrow> error_check_result ct e)"

text \<open>
  The list \<open>check_functions\<close> of \<open>validate_plot\<close>, in its order; \<open>APP_WATER\<close> is
  commented out in the source. The procedure bound to each type is looked up in the
  engine, here a function from the type to its procedure.
\<close>

definition check_functions :: "CheckType list" where
  "check_functions =
     [DEFORESTATION_PRODES, DEFORESTATION_MAPBIOMAS, TERRA_INDIGENA, EMBARGO_IBAMA,
      QUILOMBOLA, UNIDADE_CONSERVACAO]"

text \<open>
  The field constraints of the pydantic models: \<open>score: int = Field(..., ge=0, le=100)\<close>
  on \<open>GeoCheckResult\<close> and \<open>risk_score: int = Field(..., ge=0, le=100)\<close> on
  \<open>GeoValidationResult\<close>, whose constructor raises when the constraint fails.
\<close>

definition score_in_range :: "GeoCheckResult \<Rightarrow> bool" where
  "score_in_range c = (0 \<le> score c \<and> score c \<le> 100)"

definition make_GeoValidationResult ::
  "ComplianceStatus \<Rightarrow> int \<Rightarrow> GeoCheckResult list \<Rightarrow> engine_error + GeoValidationResult" where
  "make_GeoValidationResult st rs cs =
     (if 0 \<le> rs \<and> rs \<le> 100
      then Inr \<lparr> result_status = st, risk_score = rs, checks = cs \<rparr>
      else Inl (ValidationError ''risk_score''))"

definition validate_plot ::
  "(CheckType \<Rightarrow> 'g \<Rightarrow> 'a \<Rightarrow> string + GeoCheckResult) \<Rightarrow> 'g \<Rightarrow> 'a
     \<Rightarrow> engine_error + GeoValidationResult" where
  "validate_plot check_func geom_wkt area_ha =
     (let cs = map (\<lambda>ct. execute_check_safely ct (check_func ct) geom_wkt area_ha)
                 check_functions;
          st = determine_status cs;
          rs = calculate_risk_score cs;
          rs' = (if has_critical_blocker cs then 0 else rs)
      in make_GeoValidationResult st rs' cs)"

text \<open>
  The aggregate as the specification words it: the weighted sum over the checks that are
  not skipped, divided by the sum of their weights, and 50 when every check is skipped.
\<close>

definition spec_risk_score :: "GeoCheckResult list \<Rightarrow> rat" where
  "spec_risk_score cs =
     (let ns = filter (\<lambda>c. status c \<noteq> SKIP) cs in
      if ns = [] then 50
      else of_int (sum_list (map (\<lambda>c. weight_of c * score c) ns))
           / of_int (sum_list (map weight_of ns)))"

text \<open>A critical blocker, as a property of one check.\<close>

definition is_critical_blocker :: "GeoCheckResult \<Rightarrow> bool" where
  "is_critical_blocker c =
     ((check_type c \<in> {DEFORESTATION_PRODES, TERRA_INDIGENA, QUILOMBOLA, EMBARGO_IBAMA}
        \<and> status c = FAIL)
      \<or> (check_type c = UNIDADE_CONSERVACAO \<and> score c = 0))"

text \<open>
  The verdict as the claim on failing checks words it, produced from the remaining checks:
  status and score of the engine on the results that are not skipped.
\<close>

definition spec_verdict_from_remaining :: "GeoCheckResult list \<Rightarrow> ComplianceStatus \<times> int" where
  "spec_verdict_from_remaining cs =
     (let remaining_checks = filter (\<lambda>c. status c \<noteq> SKIP) cs in
      (determine_status remaining_checks,
       if has_critical_blocker remaining_checks then 0
       else calculate_risk_score remaining_checks))"

subsection \<open>Example inputs of the engine\<close>

text \<open>Concrete check results and check procedures, used to evaluate the engine.\<close>

definition mk_check :: "CheckType \<Rightarrow> CheckStatus \<Rightarrow> int \<Rightarrow> GeoCheckResult" where
  "mk_check ct st sc = \<lparr> check_type = ct, status = st, score = sc, message = [], details = [] \<rparr>"

definition example_prodes_overlap :: "CheckType \<Rightarrow> string \<Rightarrow> rat \<Rightarrow> string + GeoCheckResult" where
  "example_prodes_overlap ct geom_wkt area_ha =
     (if ct = DEFORESTATION_PRODES then Inr (mk_check ct FAIL 0)
      else Inr (mk_check ct PASS 100))"

definition example_store_timeout :: "CheckType \<Rightarrow> string \<Rightarrow> rat \<Rightarrow> string + GeoCheckResult" where
  "example_store_timeout ct geom_wkt area_ha =
     (if ct = DEFORESTATION_PRODES then Inl ''statement timeout''
      else Inr (mk_check ct PASS 100))"

definition example_two_timeouts :: "CheckType \<Rightarrow> string \<Rightarrow> rat \<Rightarrow> string + GeoCheckResult" where
  "example_two_timeouts ct geom_wkt area_ha =
     (if ct = DEFORESTATION_PRODES \<or> ct = DEFORESTATION_MAPBIOMAS
      then Inl ''statement timeout''
      else Inr (mk_check ct PASS 100))"

definition example_prodes_skipped :: "GeoCheckResult list" where
  "example_prodes_skipped =
     [error_check_result DEFORESTATION_PRODES ''statement timeout'',
      mk_check DEFORESTATION_MAPBIOMAS PASS 100,
      mk_check TERRA_INDIGENA PASS 100,
      mk_check EMBARGO_IBAMA PASS 100,
      mk_check QUILOMBOLA PASS 100,
      mk_check UNIDADE_CONSERVACAO PASS 100]"

definition example_all_skipped :: "GeoCheckResult list" where
  "example_all_skipped = map (\<lambda>ct. error_check_result ct ''connection lost'') check_functions"

definition example_uc_sustainable :: "GeoCheckResult list" where
  "example_uc_sustainable =
     [mk_check DEFORESTATION_PRODES PASS 100,
      mk_check DEFORESTATION_MAPBIOMAS PASS 100,
      mk_check TERRA_INDIGENA PASS 100,
      mk_check EMBARGO_IBAMA PASS 100,
      mk_check QUILOMBOLA PASS 100,
      mk_check UNIDADE_CONSERVACAO WARNING 70]"


section \<open>Audit service (services/audit.py)\<close>

text \<open>
  A JSON value as Python holds it after parsing. An object is a \<open>dict\<close> with string
  keys: the association list keeps the insertion order, and a \<open>dict\<close> has no key
  twice. The number type is a parameter.
\<close>

datatype 'n json =
    JNull
  | JBool bool
  | JNum 'n
  | JStr string
  | JArr "'n json list"
  | JObj "(string \<times> 'n json) list"

text \<open>\<open>sep.join(parts)\<close>.\<close>

fun join :: "string \<Rightarrow> string list \<Rightarrow> string" where
  "join sep [] = []"
| "join sep [x] = x"
| "join sep (x # y # ys) = x @ sep @ join sep (y # ys)"

text \<open>
  \<open>json.dumps(value, sort_keys=True, separators=(',', ':'))\<close>: the items of an object
  are sorted by key (strings compare lexicographically by code point, which is the
  byte-wise order of their UTF-8 form), nothing is written between the tokens. How a number
  is written (\<open>num\<close>, Python's \<open>repr\<close>) and how a string is quoted and escaped
  (\<open>esc\<close>) are parameters.
\<close>

fun dumps :: "('n \<Rightarrow> string) \<Rightarrow> (string \<Rightarrow> string) \<Rightarrow> 'n json \<Rightarrow> string" where
  "dumps num esc JNull = ''null''"
| "dumps num esc (JBool b) = (if b then ''true'' else ''false'')"
| "dumps num esc (JNum n) = num n"
| "dumps num esc (JStr s) = esc s"
| "dumps num esc (JArr xs) = ''['' @ join '','' (map (dumps num esc) xs) @ '']''"
| "dumps num esc (JObj kvs) =
     ''{'' @ join '','' (map (\<lambda>kv. esc (fst kv) @ '':'' @ dumps num esc (snd kv))
                          (sort_key fst kvs)) @ ''}''"

text \<open>
  Two JSON values that are equal up to the order of the keys of their objects, at any
  depth: in the object rule \<open>kvs''\<close> is the second object's item list brought into the
  first one's key order.
\<close>

inductive json_perm :: "'n json \<Rightarrow> 'n json \<Rightarrow> bool" where
  perm_null: "json_perm JNull JNull"
| perm_bool: "json_perm (JBool b) (JBool b)"
| perm_num: "json_perm (JNum n) (JNum n)"
| perm_str: "json_perm (JStr s) (JStr s)"
| perm_arr: "list_all2 json_perm xs ys \<Longrightarrow> json_perm (JArr xs) (JArr ys)"
| perm_obj: "distinct (map fst kvs) \<Longrightarrow>
             list_all2 (\<lambda>a b. fst a = fst b \<and> json_perm (snd a) (snd b)) kvs kvs'' \<Longrightarrow>
             mset kvs' = mset kvs'' \<Longrightarrow>
             json_perm (JObj kvs) (JObj kvs')"

text \<open>
  The library functions the audit service calls: SHA-256 of a byte string as a hexadecimal
  digest (\<open>hashlib.sha256(b).hexdigest()\<close>; a string is its UTF-8 bytes here, so
  \<open>encode('utf-8')\<close> is the identity), and the two renderers of \<open>dumps\<close>.
\<close>

record 'n library =
  sha256_hexdigest :: "string \<Rightarrow> string"
  number_repr :: "'n \<Rightarrow> string"
  encode_basestring_ascii :: "string \<Rightarrow> string"

definition hash_geojson :: "'n library \<Rightarrow> 'n json \<Rightarrow> string" where
  "hash_geojson L geojson =
     (let normalized = dumps (number_repr L) (encode_basestring_ascii L) geojson
      in sha256_hexdigest L normalized)"

text \<open>The same function in services/reports/pdf\_generator.py.\<close>

definition generate_geometry_hash :: "'n library \<Rightarrow> 'n json \<Rightarrow> string" where
  "generate_geometry_hash L geometry =
     (let normalized = dumps (number_repr L) (encode_basestring_ascii L) geometry
      in sha256_hexdigest L normalized)"


text \<open>
  The row of \<open>validation_reports\<close>: the columns that \<open>verify_report\<close> reads and the
  ones its answer is built from. Times are seconds. \<open>report_code\<close> is a unique column,
  so the table is a map from the code to the row. The columns \<open>status\<close> and
  \<open>risk_score\<close> are prefixed, the names being taken by the engine's records.
\<close>

record 'n ValidationReport =
  report_code :: string
  report_status :: string
  report_risk_score :: int
  geometry_geojson :: "'n json"
  geometry_hash :: string
  pdf_hash :: "string option"
  created_at :: int
  expires_at :: "int option"


type_synonym 'n report_table = "string \<rightharpoonup> 'n ValidationReport"









text \<open>
  The dictionary that \<open>verify_report\<close> returns: \<open>valid = False\<close> with the error and,
  for an expired report, the expiry; or \<open>valid = True\<close> with the report's fields.
  Timestamps stay numbers (the source formats them with \<open>isoformat\<close>).
\<close>

datatype verification =
    Invalid (error: string) (expired_at: "int option")
  | Valid (v_report_code: string) (v_status: string) (v_risk_score: int)
      (v_created_at: int) (v_expires_at: "int option")

definition msg_not_found :: string where
  "msg_not_found = ''Laudo n'' @ [CHR 0xC3, CHR 0xA3] @ ''o encontrado''"

definition msg_geometry_mismatch :: string where
  "msg_geometry_mismatch = ''Geometria n'' @ [CHR 0xC3, CHR 0xA3] @ ''o corresponde ao laudo''"

definition verify_report ::
  "'n library \<Rightarrow> 'n report_table \<Rightarrow> int \<Rightarrow> string \<Rightarrow> 'n json \<Rightarrow> verification" where
  "verify_report L db now code geometry =
     (case db code of
        None \<Rightarrow> Invalid msg_not_found None
      | Some report \<Rightarrow>
          if expires_at report \<noteq> None \<and> now > the (expires_at report)
          then Invalid ''Laudo expirado'' (expires_at report)
          else
            let provided_hash = hash_geojson L geometry in
            if provided_hash \<noteq> geometry_hash report
            then Invalid msg_geometry_mismatch None
            else Valid (report_code report) (report_status report) (report_risk_score report)
                   (created_at report) (expires_at report))"

text \<open>\<open>str\<close> of an integer, in decimal.\<close>

fun digits :: "nat \<Rightarrow> string" where
  "digits n =
     (if n < 10 then [''0123456789'' ! n]
      else digits (n div 10) @ [''0123456789'' ! (n mod 10)])"

declare digits.simps [simp del]

definition str_int :: "int \<Rightarrow> string" where
  "str_int i = (if i < 0 then ''-'' @ digits (nat (- i)) else digits (nat i))"

subsection \<open>Example inputs of the audit service\<close>

text \<open>
  A library with integer coordinates and a digest that keeps its input apart from any
  other; a polygon, the same polygon with its keys in the other order, and the polygon with
  one coordinate changed.
\<close>

definition example_library :: "int library" where
  "example_library =
     \<lparr> sha256_hexdigest = (\<lambda>s. ''sha256:'' @ s),
       number_repr = str_int,
       encode_basestring_ascii = (\<lambda>s. [CHR 0x22] @ s @ [CHR 0x22]) \<rparr>"

definition example_polygon :: "int json" where
  "example_polygon =
     JObj [(''type'', JStr ''Polygon''),
           (''coordinates'',
              JArr [JArr [JArr [JNum (-47), JNum (-22)], JArr [JNum (-47), JNum (-23)],
                          JArr [JNum (-46), JNum (-23)], JArr [JNum (-47), JNum (-22)]]])]"

definition example_polygon_reordered :: "int json" where
  "example_polygon_reordered =
     JObj [(''coordinates'',
              JArr [JArr [JArr [JNum (-47), JNum (-22)], JArr [JNum (-47), JNum (-23)],
                          JArr [JNum (-46), JNum (-23)], JArr [JNum (-47), JNum (-22)]]]),
           (''type'', JStr ''Polygon'')]"

definition example_polygon_mutated :: "int json" where
  "example_polygon_mutated =
     JObj [(''type'', JStr ''Polygon''),
           (''coordinates'',
              JArr [JArr [JArr [JNum (-47), JNum (-22)], JArr [JNum (-47), JNum (-23)],
                          JArr [JNum (-45), JNum (-23)], JArr [JNum (-47), JNum (-22)]]])]"



definition example_report :: "int ValidationReport" where
  "example_report =
     \<lparr> report_code = ''GG-20250101120000-AB12'',
       report_status = ''approved'',
       report_risk_score = 100,
       geometry_geojson = example_polygon,
       geometry_hash = hash_geojson example_library example_polygon,
       pdf_hash = None,
       created_at = 1000,
       expires_at = Some 7777000 \<rparr>"





section \<open>API-key admission (middleware/api\_key\_tracker.py)\<close>

text \<open>
  The row of \<open>api_keys\<close> (models/api\_key.py): the columns the admission reads or
  writes. Times are seconds. \<open>key_hash\<close> is a unique column, so the table is a map from
  the hash to the row; \<open>expires_at\<close> is written \<open>key_expires_at\<close>.
\<close>

record APIKey =
  key_hash :: string
  is_active :: bool
  is_revoked :: bool
  key_expires_at :: "int option"
  monthly_quota :: "int option"
  total_requests :: int
  requests_this_month :: int
  last_reset_at :: "int option"
  last_used_at :: "int option"

type_synonym api_key_table = "string \<rightharpoonup> APIKey"

text \<open>
  The properties \<open>has_quota_available\<close> and \<open>quota_remaining\<close> of the row.
\<close>

definition has_quota_available :: "APIKey \<Rightarrow> bool" where
  "has_quota_available k =
     (case monthly_quota k of
        None \<Rightarrow> True
      | Some q \<Rightarrow> requests_this_month k < q)"

definition quota_remaining :: "APIKey \<Rightarrow> int option" where
  "quota_remaining k =
     (case monthly_quota k of
        None \<Rightarrow> None
      | Some q \<Rightarrow> Some (max 0 (q - requests_this_month k)))"

text \<open>
  The dictionary of \<open>check_quota\<close>, which the middleware also builds for the request
  state. Its entry \<open>quota_percentage_used\<close> is a float and is left out.
\<close>

record quota_info =
  has_quota :: bool
  qi_monthly_quota :: "int option"
  qi_requests_this_month :: int
  qi_quota_remaining :: "int option"
  qi_total_requests :: int

definition check_quota :: "APIKey \<Rightarrow> quota_info" where
  "check_quota k =
     \<lparr> has_quota = has_quota_available k,
       qi_monthly_quota = monthly_quota k,
       qi_requests_this_month = requests_this_month k,
       qi_quota_remaining = quota_remaining k,
       qi_total_requests = total_requests k \<rparr>"

text \<open>
  \<open>(now - last_reset_at).days\<close>: the whole days of a \<open>timedelta\<close>, rounded down.
\<close>

definition days_between :: "int \<Rightarrow> int \<Rightarrow> int" where
  "days_between now earlier = (now - earlier) div 86400"

text \<open>
  \<open>track_usage\<close> (services/api\_key\_service.py), called with \<open>auto_commit=False\<close>:
  the flag \<open>needs_reset\<close> and the three \<open>UPDATE\<close> statements, as the new row.
\<close>

definition needs_reset :: "int \<Rightarrow> APIKey \<Rightarrow> bool" where
  "needs_reset now k =
     (case last_reset_at k of
        Some l \<Rightarrow> days_between now l \<ge> 30
      | None \<Rightarrow> False)"

definition track_usage :: "int \<Rightarrow> APIKey \<Rightarrow> APIKey" where
  "track_usage now k =
     (if needs_reset now k then
        k\<lparr> total_requests := total_requests k + 1,
           requests_this_month := 1,
           last_used_at := Some now,
           last_reset_at := Some now \<rparr>
      else if last_reset_at k = None then
        k\<lparr> total_requests := total_requests k + 1,
           requests_this_month := requests_this_month k + 1,
           last_used_at := Some now,
           last_reset_at := Some now \<rparr>
      else
        k\<lparr> total_requests := total_requests k + 1,
           requests_this_month := requests_this_month k + 1,
           last_used_at := Some now \<rparr>)"

text \<open>
  Requests and responses. The bodies the middleware writes are the JSON texts
  \<open>{"detail": ...}\<close> of the source, one constructor each: API key missing (403), invalid
  or not found (401), expired (401), monthly quota exceeded with limit and use (429);
  and the one of the rate limiter, rate limit exceeded with the seconds to wait (429).
  \<open>Content\<close> is any other body. Headers are maps from the name to the value.
\<close>

datatype body =
    Content string
  | Detail_key_missing
  | Detail_key_invalid
  | Detail_key_expired
  | Detail_quota_exceeded "int option" int
  | Detail_rate_limit_exceeded int

record response =
  status_code :: int
  content :: body
  headers :: "string \<rightharpoonup> string"

record request =
  http_method :: string
  url_path :: string
  request_headers :: "string \<rightharpoonup> string"
  state_quota_info :: "quota_info option"

text \<open>
  The set \<open>PUBLIC_PATHS\<close> and the test on the path at the head of \<open>dispatch\<close>.
\<close>

definition PUBLIC_PATHS :: "string list" where
  "PUBLIC_PATHS =
     [''/'', ''/health'', ''/health/detailed'', ''/metrics'', ''/docs'', ''/redoc'',
      ''/openapi.json'', ''/api/v1/reports/verify'', ''/api/v1/metadata/data-freshness'',
      ''/api/v1/validations/quick'']"

definition startswith :: "string \<Rightarrow> string \<Rightarrow> bool" where
  "startswith s p = (take (length p) s = p)"

definition is_public_path :: "string \<Rightarrow> bool" where
  "is_public_path p =
     (p \<in> set PUBLIC_PATHS
      \<or> startswith p ''/docs''
      \<or> startswith p ''/redoc''
      \<or> startswith p ''/api/v1/auth/''
      \<or> startswith p ''/api/v1/admin/''
      \<or> startswith p ''/api/v1/reports/verify/'')"

text \<open>
  The four CORS headers that every response built by the middleware carries.
\<close>

definition cors_headers :: "string \<rightharpoonup> string" where
  "cors_headers =
     [''Access-Control-Allow-Origin'' \<mapsto> ''*'',
      ''Access-Control-Allow-Credentials'' \<mapsto> ''true'',
      ''Access-Control-Allow-Methods'' \<mapsto> ''*'',
      ''Access-Control-Allow-Headers'' \<mapsto> ''*'']"

fun str_opt_int :: "int option \<Rightarrow> string" where
  "str_opt_int None = ''None''"
| "str_opt_int (Some i) = str_int i"

text \<open>
  The \<open>try\<close> block of \<open>dispatch\<close>: the row is selected with its lock by hash among
  the active, unrevoked rows; then expiry, then \<open>check_quota\<close> on the locked row, then
  \<open>track_usage\<close> and the commit. A rejection leaves the table as it is (close or
  rollback). An admission returns the committed table and the values the source saves
  before the commit: \<open>monthly_quota\<close>, \<open>quota_remaining\<close>,
  \<open>last_reset_timestamp\<close> and the \<open>quota_info\<close> of the request state. Database
  errors, which the source re-raises, are not modelled. \<open>hash_api_key\<close> is SHA-256,
  a parameter.
\<close>

datatype admission =
    Rejected response
  | Admitted api_key_table "int option" "int option" int quota_info

definition admit ::
  "(string \<Rightarrow> string) \<Rightarrow> api_key_table \<Rightarrow> int \<Rightarrow> string \<Rightarrow> admission" where
  "admit hash_api_key db now api_key =
     (let key_hash = hash_api_key api_key in
      case (case db key_hash of
              Some k \<Rightarrow> if is_active k \<and> \<not> is_revoked k then Some k else None
            | None \<Rightarrow> None) of
        None \<Rightarrow>
          Rejected \<lparr> status_code = 401, content = Detail_key_invalid, headers = cors_headers \<rparr>
      | Some api_key_locked \<Rightarrow>
          if key_expires_at api_key_locked \<noteq> None
             \<and> now > the (key_expires_at api_key_locked)
          then Rejected \<lparr> status_code = 401, content = Detail_key_expired,
                           headers = cors_headers \<rparr>
          else
            let quota_info_before = check_quota api_key_locked in
            if \<not> has_quota quota_info_before then
              let reset_timestamp =
                    (case last_reset_at api_key_locked of
                       Some l \<Rightarrow> str_int (l + 30 * 86400)
                     | None \<Rightarrow> ''0'')
              in Rejected
                   \<lparr> status_code = 429,
                     content = Detail_quota_exceeded (qi_monthly_quota quota_info_before)
                                 (qi_requests_this_month quota_info_before),
                     headers = cors_headers
                       (''X-RateLimit-Limit'' \<mapsto> str_opt_int (qi_monthly_quota quota_info_before),
                        ''X-RateLimit-Remaining'' \<mapsto> ''0'',
                        ''X-RateLimit-Reset'' \<mapsto> reset_timestamp) \<rparr>
            else
              let current_monthly_quota = monthly_quota api_key_locked;
                  current_requests = requests_this_month api_key_locked;
                  current_total_requests = total_requests api_key_locked;
                  last_reset_timestamp =
                    (case last_reset_at api_key_locked of
                       Some l \<Rightarrow> l + 30 * 86400
                     | None \<Rightarrow> 0);
                  db' = db(key_hash \<mapsto> track_usage now api_key_locked);
                  requests_after_increment = current_requests + 1;
                  remaining =
                    (case current_monthly_quota of
                       Some q \<Rightarrow> Some (max 0 (q - requests_after_increment))
                     | None \<Rightarrow> None);
                  info = \<lparr> has_quota = (case remaining of None \<Rightarrow> True | Some r \<Rightarrow> r > 0),
                           qi_monthly_quota = current_monthly_quota,
                           qi_requests_this_month = requests_after_increment,
                           qi_quota_remaining = remaining,
                           qi_total_requests = current_total_requests + 1 \<rparr>
              in Admitted db' current_monthly_quota remaining last_reset_timestamp info)"

text \<open>
  \<open>APIKeyTrackerMiddleware.dispatch\<close>. \<open>call_next\<close> is the rest of the chain, a
  function from the request to its response; the result is the table after the request's
  admission and the response the middleware returns.
\<close>

definition dispatch ::
  "(string \<Rightarrow> string) \<Rightarrow> (request \<Rightarrow> response) \<Rightarrow> api_key_table \<Rightarrow> int \<Rightarrow> request
     \<Rightarrow> api_key_table \<times> response" where
  "dispatch hash_api_key call_next db now req =
     (if http_method req = ''OPTIONS'' then (db, call_next req)
      else if is_public_path (url_path req) then (db, call_next req)
      else
        case request_headers req ''x-api-key'' of
          None \<Rightarrow>
            (db, \<lparr> status_code = 403, content = Detail_key_missing, headers = cors_headers \<rparr>)
        | Some api_key \<Rightarrow>
            if api_key = [] then
              (db, \<lparr> status_code = 403, content = Detail_key_missing, headers = cors_headers \<rparr>)
            else
              case admit hash_api_key db now api_key of
                Rejected r \<Rightarrow> (db, r)
              | Admitted db' current_monthly_quota remaining last_reset_timestamp info \<Rightarrow>
                  let resp = call_next (req\<lparr> state_quota_info := Some info \<rparr>) in
                  (db',
                   case current_monthly_quota of
                     Some q \<Rightarrow>
                       resp\<lparr> headers := (headers resp)
                               (''X-RateLimit-Limit'' \<mapsto> str_int q,
                                ''X-RateLimit-Remaining'' \<mapsto> str_opt_int remaining,
                                ''X-RateLimit-Reset'' \<mapsto> str_int last_reset_timestamp) \<rparr>
                   | None \<Rightarrow> resp))"

section \<open>Rate limiter (core/rate\_limit.py)\<close>

text \<open>
  \<open>RateLimitInfo\<close>, and \<open>RateLimitMiddleware.dispatch\<close>. The middleware identifies
  the client, chooses the limit and asks the limiter backend; \<open>check\<close> is the backend's
  answer for the request, a parameter. \<open>now\<close> is \<open>int(time.time())\<close>, \<open>cors_origin\<close>
  the configured origin. \<open>call_next\<close> is the rest of the chain, which may change the
  state \<open>s\<close> it is given. On every response that comes back the middleware sets the
  three rate-limit headers to its own values.
\<close>

record RateLimitInfo =
  rl_allowed :: bool
  rl_limit :: int
  rl_remaining :: int
  rl_reset_at :: int

definition EXEMPT_PATHS :: "string list" where
  "EXEMPT_PATHS = [''/health'', ''/health/detailed'', ''/docs'', ''/redoc'', ''/openapi.json'', ''/'']"

definition rate_limit_dispatch ::
  "(request \<Rightarrow> RateLimitInfo) \<Rightarrow> int \<Rightarrow> string \<Rightarrow> ('s \<Rightarrow> request \<Rightarrow> 's \<times> response)
     \<Rightarrow> 's \<Rightarrow> request \<Rightarrow> 's \<times> response" where
  "rate_limit_dispatch check now cors_origin call_next s req =
     (if url_path req \<in> set EXEMPT_PATHS then call_next s req
      else if startswith (url_path req) ''/api/v1/admin/''
              \<or> startswith (url_path req) ''/api/v1/auth/'' then call_next s req
      else
        let info = check req in
        if \<not> rl_allowed info then
          let retry_after = rl_reset_at info - now in
          (s, \<lparr> status_code = 429,
                content = Detail_rate_limit_exceeded retry_after,
                headers =
                  [''X-RateLimit-Limit'' \<mapsto> str_int (rl_limit info),
                   ''X-RateLimit-Remaining'' \<mapsto> str_int (rl_remaining info),
                   ''X-RateLimit-Reset'' \<mapsto> str_int (rl_reset_at info),
                   ''Retry-After'' \<mapsto> str_int retry_after,
                   ''Access-Control-Allow-Origin'' \<mapsto> cors_origin,
                   ''Access-Control-Allow-Credentials'' \<mapsto> ''true'',
                   ''Access-Control-Allow-Methods'' \<mapsto> ''*'',
                   ''Access-Control-Allow-Headers'' \<mapsto> ''*''] \<rparr>)
        else
          case call_next s req of
            (s', resp) \<Rightarrow>
              (s', resp\<lparr> headers := (headers resp)
                          (''X-RateLimit-Limit'' \<mapsto> str_int (rl_limit info),
                           ''X-RateLimit-Remaining'' \<mapsto> str_int (rl_remaining info),
                           ''X-RateLimit-Reset'' \<mapsto> str_int (rl_reset_at info)) \<rparr>))"

section \<open>Middleware chain (main.py)\<close>

text \<open>
  The middlewares that \<open>create_app\<close> installs; \<open>add_security_headers\<close> is the
  function decorated with \<open>@app.middleware("http")\<close>.
\<close>

datatype middleware =
    CORSMiddleware
  | add_security_headers
  | RequestLoggingMiddleware
  | APIKeyTrackerMiddleware
  | RateLimitMiddleware
  | LimitUploadSizeMiddleware

text \<open>
  Starlette's \<open>add_middleware\<close> inserts the middleware at the head of the
  application's list (\<open>user_middleware.insert(0, ...)\<close>); the decorator does the same.
\<close>

definition add_middleware :: "middleware \<Rightarrow> middleware list \<Rightarrow> middleware list" where
  "add_middleware m user_middleware = m # user_middleware"

text \<open>
  The installations of \<open>create_app\<close>, in the order of the source. The rate limiter is
  installed only when \<open>settings.RATE_LIMIT_ENABLED\<close> holds.
\<close>

definition create_app :: "bool \<Rightarrow> middleware list" where
  "create_app RATE_LIMIT_ENABLED =
     (let app = [];
          app = add_middleware CORSMiddleware app;
          app = add_middleware add_security_headers app;
          app = add_middleware RequestLoggingMiddleware app;
          app = add_middleware APIKeyTrackerMiddleware app;
          app = (if RATE_LIMIT_ENABLED then add_middleware RateLimitMiddleware app else app);
          app = add_middleware LimitUploadSizeMiddleware app
      in app)"

text \<open>
  The application wraps the router in the middlewares of the list from the last to the
  first, so a request meets them in the order of the list (the source's comment on the
  last installation: added last, executed first). \<open>run_stack\<close> lists the stages a
  request enters: a middleware either answers by itself (\<open>responds\<close>: the 413 of the
  size limit, the 429 of the rate limiter, the 401, 403 and 429 of the key tracker), and
  the request goes no further, or it calls the next one; after the last middleware comes
  the route handler.
\<close>

datatype stage = Stage middleware | RouteHandler

fun run_stack :: "(middleware \<Rightarrow> 'r \<Rightarrow> bool) \<Rightarrow> middleware list \<Rightarrow> 'r \<Rightarrow> stage list" where
  "run_stack responds [] req = [RouteHandler]"
| "run_stack responds (m # ms) req =
     Stage m # (if responds m req then [] else run_stack responds ms req)"

text \<open>
  The order of the stages as the specification gives it.
\<close>

definition spec_pipeline_order :: "stage list" where
  "spec_pipeline_order =
     [Stage LimitUploadSizeMiddleware, Stage RequestLoggingMiddleware,
      Stage APIKeyTrackerMiddleware, Stage RateLimitMiddleware, RouteHandler]"


subsection \<open>Example inputs of the admission\<close>

text \<open>
  A digest, a key row with a given quota, use and last reset, the table holding it, a
  request bearing the key, the answer of the rate limiter for an anonymous client's first
  request of the minute, and a handler.
\<close>

definition example_hash :: "string \<Rightarrow> string" where
  "example_hash s = ''sha256:'' @ s"

definition example_key :: "int option \<Rightarrow> int \<Rightarrow> int option \<Rightarrow> APIKey" where
  "example_key quota used last_reset =
     \<lparr> key_hash = example_hash ''gg_live_0123456789abcdef0123456789abcdef'',
       is_active = True, is_revoked = False, key_expires_at = None,
       monthly_quota = quota, total_requests = used, requests_this_month = used,
       last_reset_at = last_reset, last_used_at = last_reset \<rparr>"

definition example_table :: "APIKey \<Rightarrow> api_key_table" where
  "example_table k = [key_hash k \<mapsto> k]"

definition example_request :: request where
  "example_request =
     \<lparr> http_method = ''POST'', url_path = ''/api/v1/validations/validate'',
       request_headers = [''x-api-key'' \<mapsto> ''gg_live_0123456789abcdef0123456789abcdef''],
       state_quota_info = None \<rparr>"

definition example_rate_check :: "request \<Rightarrow> RateLimitInfo" where
  "example_rate_check req =
     \<lparr> rl_allowed = True, rl_limit = 20, rl_remaining = 19, rl_reset_at = 432060 \<rparr>"

definition example_handler :: "request \<Rightarrow> response" where
  "example_handler req = \<lparr> status_code = 200, content = Content ''{}'', headers = Map.empty \<rparr>"


section \<open>Properties of the validation engine\<close>

lemma has_critical_blocker_iff:
  "has_critical_blocker cs \<longleftrightarrow> list_ex is_critical_blocker cs"
  by (induction cs) (auto simp: is_critical_blocker_def critical_blockers_def)

lemma risk_score_loop_sums:
  "risk_score_loop cs (tw, ws) =
     (tw + sum_list (map weight_of cs), ws + sum_list (map (\<lambda>c. score c * weight_of c) cs))"
  by (induction cs arbitrary: tw ws) (simp_all add: algebra_simps)

lemma weight_of_nonneg: "0 \<le> weight_of c"
  by (cases "check_type c") (simp_all add: weight_of_def)

lemma calculate_risk_score_eq:
  "calculate_risk_score cs =
     (if sum_list (map weight_of cs) = 0 then 50
      else int_of_quotient (sum_list (map (\<lambda>c. score c * weight_of c) cs))
             (sum_list (map weight_of cs)))"
  by (simp add: calculate_risk_score_def risk_score_loop_sums)

lemma weighted_sum_bounds:
  "list_all score_in_range cs \<Longrightarrow>
     0 \<le> sum_list (map (\<lambda>c. score c * weight_of c) cs) \<and>
     sum_list (map (\<lambda>c. score c * weight_of c) cs) \<le> 100 * sum_list (map weight_of cs)"
proof (induction cs)
  case Nil
  then show ?case by simp
next
  case (Cons c cs)
  have w: "0 \<le> weight_of c" by (rule weight_of_nonneg)
  from Cons.prems have s: "0 \<le> score c" "score c \<le> 100"
    by (simp_all add: score_in_range_def)
  have "0 \<le> score c * weight_of c" using s w by simp
  moreover have "score c * weight_of c \<le> 100 * weight_of c"
    using s w by (simp add: mult_right_mono)
  ultimately show ?case using Cons by simp
qed

lemma sum_weights_nonneg: "0 \<le> sum_list (map weight_of cs)"
  by (induction cs) (simp_all add: weight_of_nonneg)

lemma calculate_risk_score_range:
  assumes "list_all score_in_range cs"
  shows "0 \<le> calculate_risk_score cs \<and> calculate_risk_score cs \<le> 100"
proof (cases "sum_list (map weight_of cs) = 0")
  case True
  then show ?thesis by (simp add: calculate_risk_score_eq)
next
  case False
  define W where "W = sum_list (map weight_of cs)"
  define S where "S = sum_list (map (\<lambda>c. score c * weight_of c) cs)"
  have W: "0 < W" using False sum_weights_nonneg [of cs] by (simp add: W_def)
  have S: "0 \<le> S" "S \<le> 100 * W"
    using weighted_sum_bounds [OF assms] by (simp_all add: S_def W_def)
  have q: "int_of_quotient S W = S div W"
    using W S by (cases "S = 0") (simp_all add: int_of_quotient_def)
  have "0 \<le> S div W" using S W by (simp add: pos_imp_zdiv_nonneg_iff)
  moreover have "S div W \<le> 100"
  proof -
    have "S div W \<le> (100 * W) div W" using S W by (intro zdiv_mono1) simp_all
    also have "\<dots> = 100" using W by simp
    finally show ?thesis .
  qed
  ultimately show ?thesis using False q by (simp add: calculate_risk_score_eq S_def W_def)
qed

lemmas engine_eval =
  validate_plot_def execute_check_safely_def check_functions_def make_GeoValidationResult_def
  determine_status_def calculate_risk_score_def weight_of_def int_of_quotient_def
  critical_blockers_def is_critical_blocker_def error_check_result_def mk_check_def
  score_in_range_def

text \<open>
  Claim C1. In every verdict that \<open>validate_plot\<close> returns, a check of type prodes,
  terra\_indigena, quilombola or embargo\_ibama with status fail, or a uc check with score 0,
  makes the status rejected and the risk score 0, whatever the weighted aggregate is.
\<close>

theorem critical_blocker_veto:
  assumes "validate_plot check_func geom_wkt area_ha = Inr v"
    and "list_ex is_critical_blocker (checks v)"
  shows "result_status v = REJECTED \<and> risk_score v = 0"
proof -
  define cs where
    "cs = map (\<lambda>ct. execute_check_safely ct (check_func ct) geom_wkt area_ha) check_functions"
  from assms(1) have v: "checks v = cs"
    "result_status v = determine_status cs"
    "risk_score v = (if has_critical_blocker cs then 0 else calculate_risk_score cs)"
    by (auto simp: validate_plot_def make_GeoValidationResult_def cs_def Let_def
          split: if_splits)
  from assms(2) v(1) have "has_critical_blocker cs"
    by (simp add: has_critical_blocker_iff)
  then show ?thesis using v by (simp add: determine_status_def)
qed

theorem critical_blocker_veto_witness:
  "validate_plot example_prodes_overlap ''POLYGON((0 0,0 1,1 1,0 0))'' 12
     = Inr \<lparr> result_status = REJECTED, risk_score = 0,
             checks = map (\<lambda>ct. mk_check ct (if ct = DEFORESTATION_PRODES then FAIL else PASS)
                                   (if ct = DEFORESTATION_PRODES then 0 else 100))
                        check_functions \<rparr>"
proof -
  let ?r = "validate_plot example_prodes_overlap ''POLYGON((0 0,0 1,1 1,0 0))'' 12"
  obtain v where v: "?r = Inr v" and cs: "checks v = map (\<lambda>ct. mk_check ct (if ct = DEFORESTATION_PRODES then FAIL else PASS)
                                   (if ct = DEFORESTATION_PRODES then 0 else 100))
                        check_functions"
    by (simp add: engine_eval example_prodes_overlap_def)
  have b: "list_ex is_critical_blocker (checks v)"
    by (simp add: cs check_functions_def is_critical_blocker_def mk_check_def)
  from critical_blocker_veto [OF v b] cs v show ?thesis by simp
qed

lemma all_skipped_sum:
  "list_all (\<lambda>c. score c = 50) cs \<Longrightarrow>
     sum_list (map (\<lambda>c. score c * weight_of c) cs) = 50 * sum_list (map weight_of cs)"
  by (induction cs) (simp_all add: algebra_simps)

text \<open>
  Claim C2, as amended. The aggregated risk score is the weighted sum of the scores divided
  by the sum of the weights, truncated to an integer, taken over every check of the list:
  a skipped check takes part with its recorded score and its weight. The result is 50 when
  the weights sum to 0, and also when every check is a skip carrying the score 50 that the
  engine gives a failed check.
\<close>

theorem risk_score_over_all_checks:
  "calculate_risk_score cs =
     (if sum_list (map weight_of cs) = 0 then 50
      else int_of_quotient (sum_list (map (\<lambda>c. score c * weight_of c) cs))
             (sum_list (map weight_of cs)))
   \<and> (list_all (\<lambda>c. status c = SKIP \<and> score c = 50) cs \<longrightarrow> calculate_risk_score cs = 50)"
proof (intro conjI impI)
  show "calculate_risk_score cs =
     (if sum_list (map weight_of cs) = 0 then 50
      else int_of_quotient (sum_list (map (\<lambda>c. score c * weight_of c) cs))
             (sum_list (map weight_of cs)))"
    by (rule calculate_risk_score_eq)
next
  assume a: "list_all (\<lambda>c. status c = SKIP \<and> score c = 50) cs"
  then have "list_all (\<lambda>c. score c = 50) cs" by (simp add: list_all_iff)
  then have s: "sum_list (map (\<lambda>c. score c * weight_of c) cs) = 50 * sum_list (map weight_of cs)"
    by (rule all_skipped_sum)
  show "calculate_risk_score cs = 50"
  proof (cases "sum_list (map weight_of cs) = 0")
    case True
    then show ?thesis by (simp add: calculate_risk_score_eq)
  next
    case False
    then have "0 < sum_list (map weight_of cs)"
      using sum_weights_nonneg [of cs] by simp
    then show ?thesis
      by (simp add: calculate_risk_score_eq s int_of_quotient_def)
  qed
qed

theorem risk_score_over_all_checks_witness:
  "list_all (\<lambda>c. status c = SKIP \<and> score c = 50) example_all_skipped
   \<and> calculate_risk_score example_all_skipped = 50
   \<and> sum_list (map weight_of example_all_skipped) = 100"
proof -
  have h: "list_all (\<lambda>c. status c = SKIP \<and> score c = 50) example_all_skipped"
    by (simp add: example_all_skipped_def check_functions_def error_check_result_def)
  have w: "sum_list (map weight_of example_all_skipped) = 100"
    by (simp add: example_all_skipped_def check_functions_def error_check_result_def
          weight_of_def)
  from risk_score_over_all_checks [of example_all_skipped] h w show ?thesis by simp
qed

text \<open>
  The claim as stated restricts the sums to the checks that are not skipped. With the
  prodes check skipped (score 50) and the five others passing, the engine returns 82 where
  the sums over the five others give 100.
\<close>

theorem risk_score_skips_counterexample:
  "calculate_risk_score example_prodes_skipped = 82
   \<and> spec_risk_score example_prodes_skipped = 100
   \<and> of_int (calculate_risk_score example_prodes_skipped)
       \<noteq> spec_risk_score example_prodes_skipped"
  by (simp add: example_prodes_skipped_def spec_risk_score_def engine_eval)

text \<open>
  Claim C5, as amended. When a check procedure raises, \<open>_execute_check_safely\<close> returns
  the result of \<open>_error_check_result\<close>: status skip, score 50 and the error text under
  \<open>error\<close> in the details. \<open>validate_plot\<close> still returns a verdict, and the verdict is
  produced from all six safely executed results, the skipped ones included: its status is
  \<open>_determine_status\<close> of the six, its score their aggregate (0 under a critical
  blocker), its checks the six results. The hypothesis is the field constraint of
  \<open>GeoCheckResult\<close> on the results that the procedures do return.
\<close>

theorem check_failure_isolated:
  assumes "\<forall>ct r. check_func ct geom_wkt area_ha = Inr r \<longrightarrow> score_in_range r"
  shows "(\<forall>ct e. check_func ct geom_wkt area_ha = Inl e \<longrightarrow>
            execute_check_safely ct (check_func ct) geom_wkt area_ha = error_check_result ct e
          \<and> check_type (execute_check_safely ct (check_func ct) geom_wkt area_ha) = ct
          \<and> status (execute_check_safely ct (check_func ct) geom_wkt area_ha) = SKIP
          \<and> score (execute_check_safely ct (check_func ct) geom_wkt area_ha) = 50
          \<and> map_of (details (execute_check_safely ct (check_func ct) geom_wkt area_ha))
               ''error'' = Some e)
       \<and> validate_plot check_func geom_wkt area_ha
           = Inr \<lparr> result_status =
                    determine_status
                      (map (\<lambda>ct. execute_check_safely ct (check_func ct) geom_wkt area_ha)
                         check_functions),
                  risk_score =
                    (if has_critical_blocker
                          (map (\<lambda>ct. execute_check_safely ct (check_func ct) geom_wkt area_ha)
                             check_functions)
                     then 0
                     else calculate_risk_score
                            (map (\<lambda>ct. execute_check_safely ct (check_func ct) geom_wkt area_ha)
                               check_functions)),
                  checks =
                    map (\<lambda>ct. execute_check_safely ct (check_func ct) geom_wkt area_ha)
                      check_functions \<rparr>"
proof (intro conjI allI impI)
  fix ct e
  assume "check_func ct geom_wkt area_ha = Inl e"
  then show "execute_check_safely ct (check_func ct) geom_wkt area_ha = error_check_result ct e"
    and "check_type (execute_check_safely ct (check_func ct) geom_wkt area_ha) = ct"
    and "status (execute_check_safely ct (check_func ct) geom_wkt area_ha) = SKIP"
    and "score (execute_check_safely ct (check_func ct) geom_wkt area_ha) = 50"
    and "map_of (details (execute_check_safely ct (check_func ct) geom_wkt area_ha))
               ''error'' = Some e"
    by (simp_all add: execute_check_safely_def error_check_result_def)
next
  define cs where
    "cs = map (\<lambda>ct. execute_check_safely ct (check_func ct) geom_wkt area_ha) check_functions"
  have "score_in_range (execute_check_safely ct (check_func ct) geom_wkt area_ha)" for ct
    using assms
    by (cases "check_func ct geom_wkt area_ha")
       (simp_all add: execute_check_safely_def error_check_result_def score_in_range_def)
  then have "list_all score_in_range cs"
    by (simp add: cs_def list_all_iff)
  then have "0 \<le> calculate_risk_score cs \<and> calculate_risk_score cs \<le> 100"
    by (rule calculate_risk_score_range)
  then have "validate_plot check_func geom_wkt area_ha
           = Inr \<lparr> result_status = determine_status cs,
                  risk_score = (if has_critical_blocker cs then 0 else calculate_risk_score cs),
                  checks = cs \<rparr>"
    by (simp add: validate_plot_def make_GeoValidationResult_def cs_def [symmetric] Let_def)
  then show "validate_plot check_func geom_wkt area_ha
           = Inr \<lparr> result_status =
                    determine_status
                      (map (\<lambda>ct. execute_check_safely ct (check_func ct) geom_wkt area_ha)
                         check_functions),
                  risk_score =
                    (if has_critical_blocker
                          (map (\<lambda>ct. execute_check_safely ct (check_func ct) geom_wkt area_ha)
                             check_functions)
                     then 0
                     else calculate_risk_score
                            (map (\<lambda>ct. execute_check_safely ct (check_func ct) geom_wkt area_ha)
                               check_functions)),
                  checks =
                    map (\<lambda>ct. execute_check_safely ct (check_func ct) geom_wkt area_ha)
                      check_functions \<rparr>"
    by (simp only: cs_def)
qed

theorem check_failure_isolated_witness:
  "example_store_timeout DEFORESTATION_PRODES ''POLYGON((0 0,0 1,1 1,0 0))'' 12
       = Inl ''statement timeout''
   \<and> execute_check_safely DEFORESTATION_PRODES (example_store_timeout DEFORESTATION_PRODES)
       ''POLYGON((0 0,0 1,1 1,0 0))'' 12
     = error_check_result DEFORESTATION_PRODES ''statement timeout''
   \<and> validate_plot example_store_timeout ''POLYGON((0 0,0 1,1 1,0 0))'' 12
     = Inr \<lparr> result_status = APPROVED, risk_score = 82, checks = example_prodes_skipped \<rparr>"
proof -
  have h: "\<forall>ct r. example_store_timeout ct ''POLYGON((0 0,0 1,1 1,0 0))'' 12 = Inr r
             \<longrightarrow> score_in_range r"
    by (auto simp: example_store_timeout_def mk_check_def score_in_range_def)
  have e: "example_store_timeout DEFORESTATION_PRODES ''POLYGON((0 0,0 1,1 1,0 0))'' 12
             = Inl ''statement timeout''"
    by (simp add: example_store_timeout_def)
  have cs: "map (\<lambda>ct. execute_check_safely ct (example_store_timeout ct)
                        ''POLYGON((0 0,0 1,1 1,0 0))'' 12) check_functions
              = example_prodes_skipped"
    by (simp add: execute_check_safely_def example_store_timeout_def check_functions_def
          example_prodes_skipped_def)
  have st: "determine_status example_prodes_skipped = APPROVED"
    and rs: "calculate_risk_score example_prodes_skipped = 82"
    and nb: "\<not> has_critical_blocker example_prodes_skipped"
    by (simp_all add: example_prodes_skipped_def engine_eval)
  from check_failure_isolated
         [of example_store_timeout "''POLYGON((0 0,0 1,1 1,0 0))''" 12] h e cs st rs nb
  show ?thesis by simp
qed

text \<open>
  The claim as stated has the verdict produced from the remaining checks. When the prodes
  and mapbiomas procedures both time out on a plot whose four other checks pass, the engine
  returns warning with score 70, the two skips weighing in with score 50 and weight 60;
  the four remaining checks alone give approved with score 100.
\<close>

theorem skipped_checks_weigh_in_counterexample:
  "validate_plot example_two_timeouts ''POLYGON((0 0,0 1,1 1,0 0))'' 12
     = Inr \<lparr> result_status = COMPLIANCE_WARNING, risk_score = 70,
             checks =
               [error_check_result DEFORESTATION_PRODES ''statement timeout'',
                error_check_result DEFORESTATION_MAPBIOMAS ''statement timeout'',
                mk_check TERRA_INDIGENA PASS 100,
                mk_check EMBARGO_IBAMA PASS 100,
                mk_check QUILOMBOLA PASS 100,
                mk_check UNIDADE_CONSERVACAO PASS 100] \<rparr>
   \<and> spec_verdict_from_remaining
       [error_check_result DEFORESTATION_PRODES ''statement timeout'',
        error_check_result DEFORESTATION_MAPBIOMAS ''statement timeout'',
        mk_check TERRA_INDIGENA PASS 100,
        mk_check EMBARGO_IBAMA PASS 100,
        mk_check QUILOMBOLA PASS 100,
        mk_check UNIDADE_CONSERVACAO PASS 100]
     = (APPROVED, 100)"
  by (simp add: engine_eval example_two_timeouts_def spec_verdict_from_remaining_def)

text \<open>
  Claim C6. For a list of checks without critical blocker, the status is approved when the
  aggregate is at least 75 and no check has status warning, warning when it is at least 75
  and some check has status warning, warning when it is at least 60 and below 75, and
  rejected below 60.
\<close>

theorem status_mapping_without_blocker:
  assumes "\<not> list_ex is_critical_blocker cs"
  shows "determine_status cs =
           (if 75 \<le> calculate_risk_score cs \<and> \<not> list_ex (\<lambda>c. status c = WARNING) cs
              then APPROVED
            else if 75 \<le> calculate_risk_score cs then COMPLIANCE_WARNING
            else if 60 \<le> calculate_risk_score cs then COMPLIANCE_WARNING
            else REJECTED)"
  using assms by (simp add: determine_status_def has_critical_blocker_iff Let_def)

theorem status_mapping_without_blocker_witness:
  "\<not> list_ex is_critical_blocker example_uc_sustainable
   \<and> calculate_risk_score example_uc_sustainable = 98
   \<and> determine_status example_uc_sustainable = COMPLIANCE_WARNING"
proof -
  have h: "\<not> list_ex is_critical_blocker example_uc_sustainable"
    by (simp add: example_uc_sustainable_def is_critical_blocker_def mk_check_def)
  have s: "calculate_risk_score example_uc_sustainable = 98"
    by (simp add: example_uc_sustainable_def engine_eval)
  have w: "list_ex (\<lambda>c. status c = WARNING) example_uc_sustainable"
    by (simp add: example_uc_sustainable_def mk_check_def)
  from status_mapping_without_blocker [OF h] s w h show ?thesis by simp
qed

section \<open>Properties of the audit service\<close>

lemma insort_key_rel:
  assumes "list_all2 R xs ys" and "R x y" and "\<And>a b. R a b \<Longrightarrow> f a = f b"
  shows "list_all2 R (insort_key f x xs) (insort_key f y ys)"
  using assms(1)
proof (induction rule: list_all2_induct)
  case Nil
  then show ?case using assms(2) by simp
next
  case (Cons a as b bs)
  have "f a = f b" "f x = f y" using Cons.hyps(1) assms(2,3) by auto
  then show ?case using Cons assms(2) by simp
qed

lemma sort_key_rel:
  assumes "list_all2 R xs ys" and "\<And>a b. R a b \<Longrightarrow> f a = f b"
  shows "list_all2 R (sort_key f xs) (sort_key f ys)"
  using assms(1)
proof (induction rule: list_all2_induct)
  case Nil
  then show ?case by simp
next
  case (Cons a as b bs)
  then show ?case using assms(2) by (simp add: insort_key_rel)
qed

lemma map_eq_of_rel:
  "list_all2 R xs ys \<Longrightarrow> (\<And>a b. R a b \<Longrightarrow> g a = g b) \<Longrightarrow> map g xs = map g ys"
  by (induction rule: list_all2_induct) simp_all

lemma sort_key_of_permutation:
  fixes xs ys :: "('k::linorder \<times> 'v) list"
  assumes "mset xs = mset ys" and "distinct (map fst ys)"
  shows "sort_key fst xs = sort_key fst ys"
proof (rule sort_key_inj_key_eq)
  show "mset xs = mset (sort_key fst ys)" using assms(1) by simp
  have "set xs = set ys" using assms(1) by (rule mset_eq_setD)
  moreover have "inj_on fst (set ys)" using assms(2) by (simp add: distinct_map)
  ultimately show "inj_on fst (set xs)" by simp
  show "sorted (map fst (sort_key fst ys))" by simp
qed

lemma dumps_perm: "json_perm a b \<Longrightarrow> dumps num esc a = dumps num esc b"
proof (induction rule: json_perm.induct)
  case (perm_arr xs ys)
  then have "map (dumps num esc) xs = map (dumps num esc) ys"
    by (intro map_eq_of_rel [where R = "\<lambda>x y. json_perm x y \<and> dumps num esc x = dumps num esc y"]) simp_all
  then show ?case by simp
next
  case (perm_obj kvs kvs'' kvs')
  let ?R = "\<lambda>a b. fst a = fst b \<and> json_perm (snd a) (snd b)
                  \<and> dumps num esc (snd a) = dumps num esc (snd b)"
  let ?g = "\<lambda>kv. esc (fst kv) @ '':'' @ dumps num esc (snd kv)"
  have keys: "map fst kvs = map fst kvs''"
    using perm_obj.IH by (intro map_eq_of_rel [where R = ?R]) simp_all
  then have d: "distinct (map fst kvs'')" using perm_obj.hyps(1) by simp
  have s: "sort_key fst kvs' = sort_key fst kvs''"
    using perm_obj.hyps(2) d by (rule sort_key_of_permutation)
  have "list_all2 ?R (sort_key fst kvs) (sort_key fst kvs'')"
    using perm_obj.IH by (rule sort_key_rel) simp
  then have "map ?g (sort_key fst kvs) = map ?g (sort_key fst kvs'')"
    by (rule map_eq_of_rel) simp
  then show ?case by (simp add: s)
qed simp_all

text \<open>
  Claim C7. Two GeoJSON objects that are equal up to the order of their object keys, at any
  depth, have the same \<open>hash_geojson\<close>: the hash is the SHA-256 digest of the
  serialization with sorted keys and no whitespace, which is the same for both. The
  function \<open>generate_geometry_hash\<close> of the PDF generator agrees.
\<close>

theorem hash_geojson_key_order:
  assumes "json_perm a b"
  shows "hash_geojson L a = hash_geojson L b
       \<and> hash_geojson L a
           = sha256_hexdigest L (dumps (number_repr L) (encode_basestring_ascii L) b)
       \<and> generate_geometry_hash L a = generate_geometry_hash L b"
  using dumps_perm [OF assms, of "number_repr L" "encode_basestring_ascii L"]
  by (simp add: hash_geojson_def generate_geometry_hash_def)

theorem hash_geojson_key_order_witness:
  "json_perm example_polygon example_polygon_reordered
   \<and> example_polygon \<noteq> example_polygon_reordered
   \<and> hash_geojson example_library example_polygon
       = hash_geojson example_library example_polygon_reordered"
proof -
  have p: "json_perm example_polygon example_polygon_reordered"
    unfolding example_polygon_def example_polygon_reordered_def
    by (rule perm_obj [where kvs'' = "[(''type'', JStr ''Polygon''),
           (''coordinates'',
              JArr [JArr [JArr [JNum (-47), JNum (-22)], JArr [JNum (-47), JNum (-23)],
                          JArr [JNum (-46), JNum (-23)], JArr [JNum (-47), JNum (-22)]]])]"])
       (auto intro!: json_perm.intros)
  have n: "example_polygon \<noteq> example_polygon_reordered"
    by (simp add: example_polygon_def example_polygon_reordered_def)
  from hash_geojson_key_order [OF p, of example_library] p n show ?thesis by simp
qed






text \<open>
  Claim C10. For a stored record whose \<open>expires_at\<close> has passed, \<open>verify_report\<close>
  answers invalid with the error \<open>Laudo expirado\<close> and the stored expiry, for every
  geometry submitted, the one whose hash is stored included.
\<close>

theorem verify_expired_report:
  assumes "db code = Some R" and "expires_at R = Some e" and "e < now"
  shows "verify_report L db now code G = Invalid ''Laudo expirado'' (Some e)"
  using assms by (simp add: verify_report_def)

theorem verify_expired_report_witness:
  "hash_geojson example_library example_polygon = geometry_hash example_report
   \<and> verify_report example_library [''GG-20250101120000-AB12'' \<mapsto> example_report] 9000000
       ''GG-20250101120000-AB12'' example_polygon
     = Invalid ''Laudo expirado'' (Some 7777000)"
proof -
  have d: "[''GG-20250101120000-AB12'' \<mapsto> example_report] ''GG-20250101120000-AB12''
             = Some example_report" by simp
  have e: "expires_at example_report = Some 7777000" by (simp add: example_report_def)
  have t: "(7777000::int) < 9000000" by simp
  from verify_expired_report
         [where db = "[''GG-20250101120000-AB12'' \<mapsto> example_report]"
            and code = "''GG-20250101120000-AB12''" and R = example_report and e = 7777000
            and now = 9000000 and L = example_library and G = example_polygon] d e t
  show ?thesis by (simp add: example_report_def)
qed

section \<open>Properties of the API-key admission\<close>

lemmas tracker_eval =
  dispatch_def admit_def check_quota_def has_quota_available_def quota_remaining_def
  track_usage_def needs_reset_def days_between_def is_public_path_def PUBLIC_PATHS_def
  startswith_def example_key_def example_table_def example_request_def example_handler_def
  example_hash_def

text \<open>
  Claim C3, on the code. A key of quota 3 that has used 3 requests and was last reset 31
  days ago is due for the monthly reset. The middleware compares the counter with the
  quota before \<open>track_usage\<close>, the only place that resets: the request is answered 429,
  the row stays as it is, and the header \<open>X-RateLimit-Reset\<close> names an instant (day 30)
  that has already passed.
\<close>

theorem stale_key_at_quota_rejected:
  "needs_reset 2678400 (example_key (Some 3) 3 (Some 0))
   \<and> fst (dispatch example_hash example_handler
             (example_table (example_key (Some 3) 3 (Some 0))) 2678400 example_request)
       = example_table (example_key (Some 3) 3 (Some 0))
   \<and> status_code (snd (dispatch example_hash example_handler
             (example_table (example_key (Some 3) 3 (Some 0))) 2678400 example_request))
       = 429
   \<and> headers (snd (dispatch example_hash example_handler
             (example_table (example_key (Some 3) 3 (Some 0))) 2678400 example_request))
         ''X-RateLimit-Reset'' = Some ''2592000''"
  by (simp add: tracker_eval str_int_def digits.simps Let_def)

text \<open>
  Claim C9, as amended. For a request admitted under a key whose row has a monthly quota,
  when the admission applies no 30-day reset, the response the key tracker returns carries
  \<open>X-RateLimit-Limit\<close> (the quota of the row), \<open>X-RateLimit-Remaining\<close> (the quota minus
  the incremented \<open>requests_this_month\<close> of the committed row, floored at 0) and
  \<open>X-RateLimit-Reset\<close> (30 days after the last reset, 0 when there was none).
\<close>

theorem quota_headers_after_increment:
  assumes "admit H db now api_key = Admitted db' mq rem ts info"
    and "db (H api_key) = Some k" and "monthly_quota k = Some q"
    and "\<not> needs_reset now k"
    and "request_headers req ''x-api-key'' = Some api_key" and "api_key \<noteq> []"
    and "http_method req \<noteq> ''OPTIONS''" and "\<not> is_public_path (url_path req)"
  shows "fst (dispatch H call_next db now req) = db'
       \<and> (\<exists>k'. db' (H api_key) = Some k'
            \<and> monthly_quota k' = Some q
            \<and> requests_this_month k' = requests_this_month k + 1
            \<and> total_requests k' = total_requests k + 1
            \<and> headers (snd (dispatch H call_next db now req)) ''X-RateLimit-Limit''
                = Some (str_int q)
            \<and> headers (snd (dispatch H call_next db now req)) ''X-RateLimit-Remaining''
                = Some (str_int (max 0 (q - requests_this_month k')))
            \<and> headers (snd (dispatch H call_next db now req)) ''X-RateLimit-Reset''
                = Some (str_int (case last_reset_at k of
                                   Some l \<Rightarrow> l + 30 * 86400
                                 | None \<Rightarrow> 0)))"
proof -
  from assms(1-3) have a: "db' = db(H api_key \<mapsto> track_usage now k)"
    "mq = Some q"
    "rem = Some (max 0 (q - (requests_this_month k + 1)))"
    "ts = (case last_reset_at k of Some l \<Rightarrow> l + 30 * 86400 | None \<Rightarrow> 0)"
    by (auto simp: admit_def Let_def split: option.splits if_splits)
  from assms(3,4) have t: "requests_this_month (track_usage now k) = requests_this_month k + 1"
    "total_requests (track_usage now k) = total_requests k + 1"
    "monthly_quota (track_usage now k) = Some q"
    by (simp_all add: track_usage_def)
  show ?thesis
    using assms(1,5-8) a t by (simp add: dispatch_def Let_def)
qed

theorem quota_headers_after_increment_witness:
  "admit example_hash (example_table (example_key (Some 50) 10 (Some 0))) 432000
       ''gg_live_0123456789abcdef0123456789abcdef''
     = Admitted
         (example_table ((example_key (Some 50) 10 (Some 0))
            \<lparr> total_requests := 11, requests_this_month := 11, last_used_at := Some 432000 \<rparr>))
         (Some 50) (Some 39) 2592000
         \<lparr> has_quota = True, qi_monthly_quota = Some 50, qi_requests_this_month = 11,
           qi_quota_remaining = Some 39, qi_total_requests = 11 \<rparr>
   \<and> monthly_quota (example_key (Some 50) 10 (Some 0)) = Some 50
   \<and> \<not> needs_reset 432000 (example_key (Some 50) 10 (Some 0))
   \<and> fst (dispatch example_hash example_handler
          (example_table (example_key (Some 50) 10 (Some 0))) 432000 example_request)
     = example_table ((example_key (Some 50) 10 (Some 0))
         \<lparr> total_requests := 11, requests_this_month := 11, last_used_at := Some 432000 \<rparr>)
   \<and> headers (snd (dispatch example_hash example_handler
          (example_table (example_key (Some 50) 10 (Some 0))) 432000 example_request))
        ''X-RateLimit-Limit'' = Some ''50''
   \<and> headers (snd (dispatch example_hash example_handler
          (example_table (example_key (Some 50) 10 (Some 0))) 432000 example_request))
        ''X-RateLimit-Remaining'' = Some ''39''
   \<and> headers (snd (dispatch example_hash example_handler
          (example_table (example_key (Some 50) 10 (Some 0))) 432000 example_request))
        ''X-RateLimit-Reset'' = Some ''2592000''"
proof -
  let ?k = "example_key (Some 50) 10 (Some 0)"
  let ?k' = "?k\<lparr> total_requests := 11, requests_this_month := 11, last_used_at := Some 432000 \<rparr>"
  let ?key = "''gg_live_0123456789abcdef0123456789abcdef''"
  have a: "admit example_hash (example_table ?k) 432000 ?key
             = Admitted (example_table ?k') (Some 50) (Some 39) 2592000
                 \<lparr> has_quota = True, qi_monthly_quota = Some 50, qi_requests_this_month = 11,
                   qi_quota_remaining = Some 39, qi_total_requests = 11 \<rparr>"
    by (simp add: tracker_eval Let_def)
  have d: "example_table ?k (example_hash ?key) = Some ?k"
    by (simp add: tracker_eval)
  have q: "monthly_quota ?k = Some 50" by (simp add: example_key_def)
  have n: "\<not> needs_reset 432000 ?k" by (simp add: tracker_eval)
  have h: "request_headers example_request ''x-api-key'' = Some ?key" "?key \<noteq> []"
    "http_method example_request \<noteq> ''OPTIONS''" "\<not> is_public_path (url_path example_request)"
    by (simp_all add: tracker_eval)
  from quota_headers_after_increment [OF a d q n h, of example_handler]
  have "fst (dispatch example_hash example_handler (example_table ?k) 432000 example_request)
          = example_table ?k'
      \<and> headers (snd (dispatch example_hash example_handler (example_table ?k) 432000
            example_request)) ''X-RateLimit-Limit'' = Some ''50''
      \<and> headers (snd (dispatch example_hash example_handler (example_table ?k) 432000
            example_request)) ''X-RateLimit-Remaining'' = Some ''39''
      \<and> headers (snd (dispatch example_hash example_handler (example_table ?k) 432000
            example_request)) ''X-RateLimit-Reset'' = Some ''2592000''"
    by (auto simp: tracker_eval str_int_def digits.simps Let_def)
  with a q n show ?thesis by simp
qed

text \<open>
  The claim as stated fails at three inputs. A key without monthly quota (the unlimited
  plan) is admitted and counted, and the handler's response comes back without any of the
  three headers. A key of quota 50 with 10 requests used, admitted 31 days after its last
  reset, has its counter set to 1, yet the header is computed from the old counter plus one:
  it says 39 where the quota minus the counter is 49. And when the rate limiter is
  installed, which runs outside the key tracker, the response it passes on carries its own
  three values (limit 20, remaining 19) in place of the quota's 50 and 39.
\<close>

theorem quota_headers_counterexample:
  "fst (dispatch example_hash example_handler
          (example_table (example_key None 7 (Some 0))) 86400 example_request)
     = example_table ((example_key None 7 (Some 0))
         \<lparr> total_requests := 8, requests_this_month := 8, last_used_at := Some 86400 \<rparr>)
   \<and> status_code (snd (dispatch example_hash example_handler
          (example_table (example_key None 7 (Some 0))) 86400 example_request)) = 200
   \<and> headers (snd (dispatch example_hash example_handler
          (example_table (example_key None 7 (Some 0))) 86400 example_request))
        ''X-RateLimit-Limit'' = None
   \<and> headers (snd (dispatch example_hash example_handler
          (example_table (example_key None 7 (Some 0))) 86400 example_request))
        ''X-RateLimit-Remaining'' = None
   \<and> headers (snd (dispatch example_hash example_handler
          (example_table (example_key None 7 (Some 0))) 86400 example_request))
        ''X-RateLimit-Reset'' = None
   \<and> fst (dispatch example_hash example_handler
          (example_table (example_key (Some 50) 10 (Some 0))) 2678400 example_request)
     = example_table ((example_key (Some 50) 10 (Some 0))
         \<lparr> total_requests := 11, requests_this_month := 1, last_used_at := Some 2678400,
           last_reset_at := Some 2678400 \<rparr>)
   \<and> headers (snd (dispatch example_hash example_handler
          (example_table (example_key (Some 50) 10 (Some 0))) 2678400 example_request))
        ''X-RateLimit-Remaining'' = Some ''39''
   \<and> fst (rate_limit_dispatch example_rate_check 432000 ''*''
          (\<lambda>db req. dispatch example_hash example_handler db 432000 req)
          (example_table (example_key (Some 50) 10 (Some 0))) example_request)
     = example_table ((example_key (Some 50) 10 (Some 0))
         \<lparr> total_requests := 11, requests_this_month := 11, last_used_at := Some 432000 \<rparr>)
   \<and> headers (snd (rate_limit_dispatch example_rate_check 432000 ''*''
          (\<lambda>db req. dispatch example_hash example_handler db 432000 req)
          (example_table (example_key (Some 50) 10 (Some 0))) example_request))
        ''X-RateLimit-Limit'' = Some ''20''
   \<and> headers (snd (rate_limit_dispatch example_rate_check 432000 ''*''
          (\<lambda>db req. dispatch example_hash example_handler db 432000 req)
          (example_table (example_key (Some 50) 10 (Some 0))) example_request))
        ''X-RateLimit-Remaining'' = Some ''19''"
  by (simp add: tracker_eval rate_limit_dispatch_def EXEMPT_PATHS_def example_rate_check_def
        str_int_def digits.simps Let_def)

section \<open>Properties of the middleware chain\<close>

lemma run_stack_prefix:
  "prefix (run_stack responds ms req) (map Stage ms @ [RouteHandler])"
  by (induction ms) simp_all

lemma run_stack_full:
  "\<forall>m. \<not> responds m req \<Longrightarrow> run_stack responds ms req = map Stage ms @ [RouteHandler]"
  by (induction ms) simp_all

text \<open>
  Claim C4, as amended. Every request enters the stages in the fixed order: request-size
  check, rate-limit check, API-key quota admission, logging bind, security headers, CORS,
  route handler; it stops at the first stage that answers by itself. Without the rate
  limiter the order is the same with that stage taken out.
\<close>

theorem pipeline_order:
  "prefix (run_stack responds (create_app True) req)
     [Stage LimitUploadSizeMiddleware, Stage RateLimitMiddleware,
      Stage APIKeyTrackerMiddleware, Stage RequestLoggingMiddleware,
      Stage add_security_headers, Stage CORSMiddleware, RouteHandler]
   \<and> ((\<forall>m. \<not> responds m req) \<longrightarrow>
        run_stack responds (create_app True) req
          = [Stage LimitUploadSizeMiddleware, Stage RateLimitMiddleware,
             Stage APIKeyTrackerMiddleware, Stage RequestLoggingMiddleware,
             Stage add_security_headers, Stage CORSMiddleware, RouteHandler])
   \<and> prefix (run_stack responds (create_app False) req)
     [Stage LimitUploadSizeMiddleware,
      Stage APIKeyTrackerMiddleware, Stage RequestLoggingMiddleware,
      Stage add_security_headers, Stage CORSMiddleware, RouteHandler]"
  using run_stack_prefix [of responds "create_app True" req]
    run_stack_prefix [of responds "create_app False" req]
    run_stack_full [of responds req "create_app True"]
  by (simp add: create_app_def add_middleware_def)

theorem pipeline_order_witness:
  "(\<forall>m. \<not> (\<lambda>m r. m = LimitUploadSizeMiddleware \<and> http_method r = ''PUT'') m example_request)
   \<and> run_stack (\<lambda>m r. m = LimitUploadSizeMiddleware \<and> http_method r = ''PUT'') (create_app True) example_request
       = [Stage LimitUploadSizeMiddleware, Stage RateLimitMiddleware,
          Stage APIKeyTrackerMiddleware, Stage RequestLoggingMiddleware,
          Stage add_security_headers, Stage CORSMiddleware, RouteHandler]"
  using pipeline_order [of "\<lambda>m r. m = LimitUploadSizeMiddleware \<and> http_method r = ''PUT''" example_request]
  by (simp add: example_request_def)

text \<open>
  The claim as stated puts the logging bind before the quota admission and the rate-limit
  check after it. The request that no middleware answers runs through all seven stages,
  and the five stages of the claim come in another order.
\<close>

theorem pipeline_order_counterexample:
  "run_stack (\<lambda>m r. False) (create_app True) example_request
     = [Stage LimitUploadSizeMiddleware, Stage RateLimitMiddleware,
        Stage APIKeyTrackerMiddleware, Stage RequestLoggingMiddleware,
        Stage add_security_headers, Stage CORSMiddleware, RouteHandler]
   \<and> filter (\<lambda>s. s \<in> set spec_pipeline_order)
        (run_stack (\<lambda>m r. False) (create_app True) example_request)
     \<noteq> spec_pipeline_order"
  by (simp add: create_app_def add_middleware_def spec_pipeline_order_def)


end
